theory Spec2Isabelle
  imports Main
begin

section \<open>The item store of webserver.go\<close>

text \<open>
  The program is one Go file: a map from item names to prices behind a
  \<^verbatim>\<open>sync.RWMutex\<close>, and five HTTP handlers. Each mutating handler takes the
  exclusive lock in its first statement and releases it (by \<^verbatim>\<open>defer\<close>) when it
  returns, so a handler is modelled as one function from the store before the call
  to the store after it, together with the response it wrote.
\<close>

subsection \<open>What the handlers use of the Go library\<close>

text \<open>
  The handlers call four library functions whose code is not part of the
  repository. They are parameters of the model, collected in one record:
  \<^item> \<open>ParseFloat s bitSize\<close> is \<^verbatim>\<open>strconv.ParseFloat(s, bitSize)\<close>; \<open>None\<close> stands for
    a result whose \<^verbatim>\<open>err\<close> is not \<^verbatim>\<open>nil\<close> (the handlers never look at the number
    then), \<open>Some f\<close> for the \<^verbatim>\<open>float64\<close> returned with \<^verbatim>\<open>err == nil\<close>;
  \<^item> \<open>dollars f\<close> is the conversion \<^verbatim>\<open>dollars(f)\<close> from \<^verbatim>\<open>float64\<close> to the
    \<^verbatim>\<open>float32\<close> type \<^verbatim>\<open>dollars\<close>;
  \<^item> \<open>Sprintf_2f d\<close> is \<^verbatim>\<open>fmt.Sprintf("%.2f", d)\<close>;
  \<^item> \<open>Sprintf_q s\<close> is \<^verbatim>\<open>fmt.Sprintf("%q", s)\<close>.
  The two floating-point types are type parameters.
\<close>

record ('float64, 'dollars) golib =
  ParseFloat :: "string \<Rightarrow> nat \<Rightarrow> 'float64 option"
  dollars :: "'float64 \<Rightarrow> 'dollars"
  Sprintf_2f :: "'dollars \<Rightarrow> string"
  Sprintf_q :: "string \<Rightarrow> string"

text \<open>\<^verbatim>\<open>func (d dollars) String() string { return fmt.Sprintf("$%.2f", d) }\<close>\<close>

definition String :: "('float64, 'dollars) golib \<Rightarrow> 'dollars \<Rightarrow> string" where
  "String L d = ''$'' @ Sprintf_2f L d"

subsection \<open>Requests and responses\<close>

text \<open>
  A request is seen by the handlers only through \<^verbatim>\<open>req.URL.Query()\<close>, a
  \<^verbatim>\<open>url.Values\<close>: a map from parameter names to the list of their values.
  \<^verbatim>\<open>Values.Get\<close> returns the first value of a key, and the empty string when the
  key has no value.
\<close>

type_synonym Values = "string \<Rightarrow> string list option"

record Request =
  Query :: Values

definition Get :: "Values \<Rightarrow> string \<Rightarrow> string" where
  "Get v key = (case v key of None \<Rightarrow> [] | Some vs \<Rightarrow> (case vs of [] \<Rightarrow> [] | x # _ \<Rightarrow> x))"

text \<open>
  The \<^verbatim>\<open>http.ResponseWriter\<close>: the status code (set by the first
  \<^verbatim>\<open>WriteHeader\<close>, or to 200 by the first write when none came before) and the
  bytes of the body written so far.
\<close>

record ResponseWriter =
  wroteHeader :: bool
  status :: nat
  body :: string

definition StatusOK :: nat where "StatusOK = 200"
definition StatusBadRequest :: nat where "StatusBadRequest = 400"
definition StatusNotFound :: nat where "StatusNotFound = 404"
definition StatusConflict :: nat where "StatusConflict = 409"

definition NewResponseWriter :: ResponseWriter where
  "NewResponseWriter = \<lparr>wroteHeader = False, status = 0, body = []\<rparr>"

definition WriteHeader :: "ResponseWriter \<Rightarrow> nat \<Rightarrow> ResponseWriter" where
  "WriteHeader w code = (if wroteHeader w then w else w\<lparr>wroteHeader := True, status := code\<rparr>)"

text \<open>\<open>Fprintf w s\<close> writes the already formatted text \<open>s\<close> to \<open>w\<close>.\<close>

definition Fprintf :: "ResponseWriter \<Rightarrow> string \<Rightarrow> ResponseWriter" where
  "Fprintf w s = (let w' = WriteHeader w StatusOK in w'\<lparr>body := body w' @ s\<rparr>)"

definition nl :: string where
  "nl = [CHR 0x0A]"

subsection \<open>The store and its handlers\<close>

text \<open>
  \<^verbatim>\<open>type database struct { items map[string]dollars; mutex *sync.RWMutex }\<close>.
  The mutex has no field here: every handler holds it from its first statement to
  its return.
\<close>

record 'dollars database =
  items :: "string \<Rightarrow> 'dollars option"

definition price ::
  "('float64, 'dollars) golib \<Rightarrow> 'dollars database \<Rightarrow> ResponseWriter \<Rightarrow> Request \<Rightarrow> ResponseWriter"
where
  "price L db w req =
     (let item = Get (Query req) ''item'' in
      case items db item of
        Some p \<Rightarrow> Fprintf w (String L p @ nl)
      | None \<Rightarrow> Fprintf (WriteHeader w StatusNotFound) (''no such item: '' @ Sprintf_q L item @ nl))"

definition create ::
  "('float64, 'dollars) golib \<Rightarrow> 'dollars database \<Rightarrow> ResponseWriter \<Rightarrow> Request
     \<Rightarrow> 'dollars database \<times> ResponseWriter"
where
  "create L db w req =
     (let item = Get (Query req) ''item'';
          priceStr = Get (Query req) ''price''
      in case ParseFloat L priceStr 32 of
        None \<Rightarrow>
          (db, Fprintf (WriteHeader w StatusBadRequest) (''invalid price: '' @ Sprintf_q L priceStr @ nl))
      | Some p \<Rightarrow>
          (case items db item of
             Some _ \<Rightarrow>
               (db, Fprintf (WriteHeader w StatusConflict)
                      (''item already exists: '' @ Sprintf_q L item @ nl))
           | None \<Rightarrow>
               (db\<lparr>items := (items db)(item \<mapsto> dollars L p)\<rparr>,
                Fprintf w (''created '' @ item @ '': '' @ String L (dollars L p) @ nl))))"

definition update ::
  "('float64, 'dollars) golib \<Rightarrow> 'dollars database \<Rightarrow> ResponseWriter \<Rightarrow> Request
     \<Rightarrow> 'dollars database \<times> ResponseWriter"
where
  "update L db w req =
     (let item = Get (Query req) ''item'';
          priceStr = Get (Query req) ''price''
      in case ParseFloat L priceStr 32 of
        None \<Rightarrow>
          (db, Fprintf (WriteHeader w StatusBadRequest) (''invalid price: '' @ Sprintf_q L priceStr @ nl))
      | Some p \<Rightarrow>
          (case items db item of
             None \<Rightarrow>
               (db, Fprintf (WriteHeader w StatusNotFound) (''no such item: '' @ Sprintf_q L item @ nl))
           | Some _ \<Rightarrow>
               (db\<lparr>items := (items db)(item \<mapsto> dollars L p)\<rparr>,
                Fprintf w (''updated '' @ item @ '': '' @ String L (dollars L p) @ nl))))"

definition delete ::
  "('float64, 'dollars) golib \<Rightarrow> 'dollars database \<Rightarrow> ResponseWriter \<Rightarrow> Request
     \<Rightarrow> 'dollars database \<times> ResponseWriter"
where
  "delete L db w req =
     (let item = Get (Query req) ''item'' in
      case items db item of
        None \<Rightarrow>
          (db, Fprintf (WriteHeader w StatusNotFound) (''no such item: '' @ Sprintf_q L item @ nl))
      | Some _ \<Rightarrow>
          (db\<lparr>items := (items db)(item := None)\<rparr>, Fprintf w (''deleted '' @ item @ nl)))"

subsection \<open>A small instance to run the handlers on\<close>

text \<open>
  To run the handlers on concrete requests the library parameters need values. The
  instance below stands for the Go library on the strings and prices used in the
  examples of this file only: it parses the price literals \<^verbatim>\<open>40\<close> and \<^verbatim>\<open>45\<close>
  (both exact in \<^verbatim>\<open>float32\<close>) and rejects every other string, among
  them \<^verbatim>\<open>abc\<close> and the empty string, which \<^verbatim>\<open>strconv.ParseFloat\<close> rejects as
  well; a price is held in hundredths of a dollar; a string is quoted by putting
  it between double quotes, which is what \<^verbatim>\<open>%q\<close> does to a string of letters.
\<close>

definition sample_lib :: "(int, int) golib" where
  "sample_lib =
     \<lparr>ParseFloat = (\<lambda>s bitSize. map_of [(''40'', 4000), (''45'', 4500)] s),
      dollars = (\<lambda>f. f),
      Sprintf_2f = (\<lambda>d. case map_of [(500, ''5.00''), (4000, ''40.00''),
                                        (4500, ''45.00''), (5000, ''50.00'')] d of
                          Some s \<Rightarrow> s | None \<Rightarrow> []),
      Sprintf_q = (\<lambda>s. CHR 0x22 # s @ [CHR 0x22])\<rparr>"

text \<open>The store of \<^verbatim>\<open>main\<close>: \<^verbatim>\<open>map[string]dollars{"shoes": 50, "socks": 5}\<close>.\<close>

definition main_db :: "int database" where
  "main_db = \<lparr>items = [''shoes'' \<mapsto> 5000, ''socks'' \<mapsto> 500]\<rparr>"

definition request :: "(string \<times> string) list \<Rightarrow> Request" where
  "request ps = \<lparr>Query = map_of (map (\<lambda>(k, v). (k, [v])) ps)\<rparr>"

section \<open>Properties\<close>

subsection \<open>Writing to a new response writer\<close>

lemma Fprintf_new:
  "Fprintf NewResponseWriter s = \<lparr>wroteHeader = True, status = 200, body = s\<rparr>"
  by (simp add: Fprintf_def WriteHeader_def NewResponseWriter_def StatusOK_def)

lemma Fprintf_WriteHeader_new:
  "Fprintf (WriteHeader NewResponseWriter code) s = \<lparr>wroteHeader = True, status = code, body = s\<rparr>"
  by (simp add: Fprintf_def WriteHeader_def NewResponseWriter_def)

subsection \<open>The sample instance, evaluated\<close>

lemma Get_request_item_price:
  "Get (Query (request [(''item'', n), (''price'', p)])) ''item'' = n"
  "Get (Query (request [(''item'', n), (''price'', p)])) ''price'' = p"
  by (simp_all add: request_def Get_def)

lemma Get_request_item:
  "Get (Query (request [(''item'', n)])) ''item'' = n"
  by (simp add: request_def Get_def)

lemma Get_request_price:
  "Query (request [(''price'', p)]) ''item'' = None"
  "Get (Query (request [(''price'', p)])) ''price'' = p"
  by (simp_all add: request_def Get_def)

lemma items_main_db:
  "items main_db ''shoes'' = Some 5000"
  "items main_db ''socks'' = Some 500"
  "items main_db ''boots'' = None"
  "items main_db [] = None"
  by (simp_all add: main_db_def)

lemma ParseFloat_sample:
  "ParseFloat sample_lib ''40'' 32 = Some 4000"
  "ParseFloat sample_lib ''45'' 32 = Some 4500"
  "ParseFloat sample_lib ''abc'' 32 = None"
  by (simp_all add: sample_lib_def)

lemma String_sample:
  "String sample_lib 4000 = ''$40.00''"
  "String sample_lib 4500 = ''$45.00''"
  by (simp_all add: String_def sample_lib_def)

lemma Sprintf_q_sample:
  "Sprintf_q sample_lib s = CHR 0x22 # s @ [CHR 0x22]"
  by (simp add: sample_lib_def)

lemma dollars_sample: "dollars sample_lib f = f"
  by (simp add: sample_lib_def)

lemmas sample_simps = Get_request_item_price Get_request_item Get_request_price items_main_db
  ParseFloat_sample String_sample Sprintf_q_sample dollars_sample

subsection \<open>Create\<close>

text \<open>
  Claim C1. When the item named by the request is not in the store and the price
  string parses, \<^verbatim>\<open>create\<close> answers 200, stores the parsed price under that name,
  and a \<^verbatim>\<open>price\<close> request for the same name right after it answers 200 with the
  display form of the parsed price.
\<close>

theorem create_then_price:
  assumes "items db (Get (Query req) ''item'') = None"
    and "ParseFloat L (Get (Query req) ''price'') 32 = Some f"
    and "Get (Query req') ''item'' = Get (Query req) ''item''"
  shows "create L db NewResponseWriter req =
           (db\<lparr>items := (items db)(Get (Query req) ''item'' \<mapsto> dollars L f)\<rparr>,
            \<lparr>wroteHeader = True, status = 200,
             body = ''created '' @ Get (Query req) ''item'' @ '': '' @ String L (dollars L f) @ nl\<rparr>)
       \<and> price L (fst (create L db NewResponseWriter req)) NewResponseWriter req' =
           \<lparr>wroteHeader = True, status = 200, body = String L (dollars L f) @ nl\<rparr>"
  using assms by (simp add: create_def price_def Fprintf_new Let_def)

theorem create_then_price_witness:
  "items main_db (Get (Query (request [(''item'', ''boots''), (''price'', ''40'')])) ''item'') = None
   \<and> ParseFloat sample_lib (Get (Query (request [(''item'', ''boots''), (''price'', ''40'')])) ''price'') 32 = Some 4000
   \<and> Get (Query (request [(''item'', ''boots'')])) ''item''
       = Get (Query (request [(''item'', ''boots''), (''price'', ''40'')])) ''item''
   \<and> price sample_lib
        (fst (create sample_lib main_db NewResponseWriter (request [(''item'', ''boots''), (''price'', ''40'')])))
        NewResponseWriter (request [(''item'', ''boots'')])
       = \<lparr>wroteHeader = True, status = 200, body = ''$40.00'' @ nl\<rparr>"
proof -
  let ?req = "request [(''item'', ''boots''), (''price'', ''40'')]"
  let ?req' = "request [(''item'', ''boots'')]"
  have h1: "items main_db (Get (Query ?req) ''item'') = None"
    by (simp add: main_db_def request_def Get_def)
  have h2: "ParseFloat sample_lib (Get (Query ?req) ''price'') 32 = Some 4000"
    by (simp add: sample_lib_def request_def Get_def)
  have h3: "Get (Query ?req') ''item'' = Get (Query ?req) ''item''"
    by (simp add: request_def Get_def)
  have s: "String sample_lib (dollars sample_lib 4000) = ''$40.00''"
    by (simp add: String_def sample_lib_def)
  have "price sample_lib (fst (create sample_lib main_db NewResponseWriter ?req)) NewResponseWriter ?req'
          = \<lparr>wroteHeader = True, status = 200, body = String sample_lib (dollars sample_lib 4000) @ nl\<rparr>"
    using create_then_price [OF h1 h2 h3] by (rule conjunct2)
  then have c: "price sample_lib (fst (create sample_lib main_db NewResponseWriter ?req)) NewResponseWriter ?req'
          = \<lparr>wroteHeader = True, status = 200, body = ''$40.00'' @ nl\<rparr>"
    by (simp only: s)
  show ?thesis by (intro conjI h1 h2 h3 c)
qed

text \<open>
  Claim C2. When the price string parses and the item named by the request is
  already in the store, \<^verbatim>\<open>create\<close> answers 409 with the body
  \<^verbatim>\<open>item already exists: \<close> followed by the quoted name and a newline, and
  returns the store as it was. In particular a second \<^verbatim>\<open>create\<close> with the same
  request, run on the store the first one left (whether the first one inserted the
  item or found it there), answers 409 and changes nothing.
\<close>

theorem create_existing:
  assumes "ParseFloat L (Get (Query req) ''price'') 32 = Some f"
  shows "(\<forall>v. items db (Get (Query req) ''item'') = Some v \<longrightarrow>
            create L db NewResponseWriter req =
              (db, \<lparr>wroteHeader = True, status = 409,
                    body = ''item already exists: '' @ Sprintf_q L (Get (Query req) ''item'') @ nl\<rparr>))
       \<and> create L (fst (create L db NewResponseWriter req)) NewResponseWriter req =
            (fst (create L db NewResponseWriter req),
             \<lparr>wroteHeader = True, status = 409,
              body = ''item already exists: '' @ Sprintf_q L (Get (Query req) ''item'') @ nl\<rparr>)"
  using assms
  by (cases "items db (Get (Query req) ''item'')")
     (simp_all add: create_def Let_def Fprintf_new Fprintf_WriteHeader_new StatusConflict_def)

theorem create_existing_witness:
  "ParseFloat sample_lib (Get (Query (request [(''item'', ''shoes''), (''price'', ''40'')])) ''price'') 32 = Some 4000
   \<and> items main_db (Get (Query (request [(''item'', ''shoes''), (''price'', ''40'')])) ''item'') = Some 5000
   \<and> create sample_lib main_db NewResponseWriter (request [(''item'', ''shoes''), (''price'', ''40'')]) =
       (main_db, \<lparr>wroteHeader = True, status = 409,
                  body = ''item already exists: '' @ [CHR 0x22] @ ''shoes'' @ [CHR 0x22] @ nl\<rparr>)
   \<and> ParseFloat sample_lib (Get (Query (request [(''item'', ''boots''), (''price'', ''40'')])) ''price'') 32 = Some 4000
   \<and> snd (create sample_lib
         (fst (create sample_lib main_db NewResponseWriter (request [(''item'', ''boots''), (''price'', ''40'')])))
         NewResponseWriter (request [(''item'', ''boots''), (''price'', ''40'')])) =
       \<lparr>wroteHeader = True, status = 409,
        body = ''item already exists: '' @ [CHR 0x22] @ ''boots'' @ [CHR 0x22] @ nl\<rparr>"
proof -
  let ?shoes = "request [(''item'', ''shoes''), (''price'', ''40'')]"
  let ?boots = "request [(''item'', ''boots''), (''price'', ''40'')]"
  have p1: "ParseFloat sample_lib (Get (Query ?shoes) ''price'') 32 = Some 4000"
    by (simp add: sample_simps)
  have p2: "ParseFloat sample_lib (Get (Query ?boots) ''price'') 32 = Some 4000"
    by (simp add: sample_simps)
  have i1: "items main_db (Get (Query ?shoes) ''item'') = Some 5000"
    by (simp add: sample_simps)
  from create_existing [OF p1, of main_db] i1
  have "create sample_lib main_db NewResponseWriter ?shoes =
          (main_db, \<lparr>wroteHeader = True, status = 409,
             body = ''item already exists: '' @ Sprintf_q sample_lib (Get (Query ?shoes) ''item'') @ nl\<rparr>)"
    by blast
  then have c1: "create sample_lib main_db NewResponseWriter ?shoes =
       (main_db, \<lparr>wroteHeader = True, status = 409,
                  body = ''item already exists: '' @ [CHR 0x22] @ ''shoes'' @ [CHR 0x22] @ nl\<rparr>)"
    by (simp add: sample_simps)
  from create_existing [OF p2, of main_db]
  have "snd (create sample_lib (fst (create sample_lib main_db NewResponseWriter ?boots))
               NewResponseWriter ?boots) =
          \<lparr>wroteHeader = True, status = 409,
           body = ''item already exists: '' @ Sprintf_q sample_lib (Get (Query ?boots) ''item'') @ nl\<rparr>"
    by simp
  then have c2: "snd (create sample_lib (fst (create sample_lib main_db NewResponseWriter ?boots))
               NewResponseWriter ?boots) =
       \<lparr>wroteHeader = True, status = 409,
        body = ''item already exists: '' @ [CHR 0x22] @ ''boots'' @ [CHR 0x22] @ nl\<rparr>"
    by (simp add: sample_simps)
  show ?thesis by (intro conjI p1 i1 c1 p2 c2)
qed

subsection \<open>Prices that do not parse\<close>

text \<open>
  Claim C3. When the price string does not parse, \<^verbatim>\<open>create\<close> and \<^verbatim>\<open>update\<close>
  both answer 400 with the body \<^verbatim>\<open>invalid price: \<close> followed by the quoted
  price string and a newline, whatever the item name and the store, and return the
  store as it was.
\<close>

theorem invalid_price:
  assumes "ParseFloat L (Get (Query req) ''price'') 32 = None"
  shows "create L db NewResponseWriter req =
           (db, \<lparr>wroteHeader = True, status = 400,
                 body = ''invalid price: '' @ Sprintf_q L (Get (Query req) ''price'') @ nl\<rparr>)
       \<and> update L db NewResponseWriter req =
           (db, \<lparr>wroteHeader = True, status = 400,
                 body = ''invalid price: '' @ Sprintf_q L (Get (Query req) ''price'') @ nl\<rparr>)"
  using assms
  by (simp add: create_def update_def Let_def Fprintf_WriteHeader_new StatusBadRequest_def)

theorem invalid_price_witness:
  "ParseFloat sample_lib (Get (Query (request [(''item'', ''boots''), (''price'', ''abc'')])) ''price'') 32 = None
   \<and> create sample_lib main_db NewResponseWriter (request [(''item'', ''boots''), (''price'', ''abc'')]) =
       (main_db, \<lparr>wroteHeader = True, status = 400,
                  body = ''invalid price: '' @ [CHR 0x22] @ ''abc'' @ [CHR 0x22] @ nl\<rparr>)
   \<and> update sample_lib main_db NewResponseWriter (request [(''item'', ''boots''), (''price'', ''abc'')]) =
       (main_db, \<lparr>wroteHeader = True, status = 400,
                  body = ''invalid price: '' @ [CHR 0x22] @ ''abc'' @ [CHR 0x22] @ nl\<rparr>)"
proof -
  let ?req = "request [(''item'', ''boots''), (''price'', ''abc'')]"
  have p: "ParseFloat sample_lib (Get (Query ?req) ''price'') 32 = None"
    by (simp add: sample_simps)
  note th = invalid_price [OF p, of main_db]
  from th have c: "create sample_lib main_db NewResponseWriter ?req =
       (main_db, \<lparr>wroteHeader = True, status = 400,
                  body = ''invalid price: '' @ [CHR 0x22] @ ''abc'' @ [CHR 0x22] @ nl\<rparr>)"
    by (simp add: sample_simps)
  from th have u: "update sample_lib main_db NewResponseWriter ?req =
       (main_db, \<lparr>wroteHeader = True, status = 400,
                  body = ''invalid price: '' @ [CHR 0x22] @ ''abc'' @ [CHR 0x22] @ nl\<rparr>)"
    by (simp add: sample_simps)
  show ?thesis by (intro conjI p c u)
qed

subsection \<open>Update and delete\<close>

text \<open>
  Claim C4. With a price string that parses, \<^verbatim>\<open>update\<close> of a name that is not in
  the store answers 404 with the body \<^verbatim>\<open>no such item: \<close> followed by the quoted
  name and a newline, and returns the store as it was; \<^verbatim>\<open>update\<close> of a name that is
  in the store answers 200 and overwrites the value stored under that name with the
  parsed price.
\<close>

theorem update_absent_present:
  assumes "ParseFloat L (Get (Query req) ''price'') 32 = Some f"
  shows "(items db (Get (Query req) ''item'') = None \<longrightarrow>
            update L db NewResponseWriter req =
              (db, \<lparr>wroteHeader = True, status = 404,
                    body = ''no such item: '' @ Sprintf_q L (Get (Query req) ''item'') @ nl\<rparr>))
       \<and> (\<forall>v. items db (Get (Query req) ''item'') = Some v \<longrightarrow>
            update L db NewResponseWriter req =
              (db\<lparr>items := (items db)(Get (Query req) ''item'' \<mapsto> dollars L f)\<rparr>,
               \<lparr>wroteHeader = True, status = 200,
                body = ''updated '' @ Get (Query req) ''item'' @ '': '' @ String L (dollars L f) @ nl\<rparr>))"
  using assms
  by (simp add: update_def Let_def Fprintf_new Fprintf_WriteHeader_new StatusNotFound_def)

theorem update_absent_present_witness:
  "ParseFloat sample_lib (Get (Query (request [(''item'', ''boots''), (''price'', ''45'')])) ''price'') 32 = Some 4500
   \<and> items main_db (Get (Query (request [(''item'', ''boots''), (''price'', ''45'')])) ''item'') = None
   \<and> update sample_lib main_db NewResponseWriter (request [(''item'', ''boots''), (''price'', ''45'')]) =
       (main_db, \<lparr>wroteHeader = True, status = 404,
                  body = ''no such item: '' @ [CHR 0x22] @ ''boots'' @ [CHR 0x22] @ nl\<rparr>)
   \<and> ParseFloat sample_lib (Get (Query (request [(''item'', ''shoes''), (''price'', ''45'')])) ''price'') 32 = Some 4500
   \<and> items main_db (Get (Query (request [(''item'', ''shoes''), (''price'', ''45'')])) ''item'') = Some 5000
   \<and> update sample_lib main_db NewResponseWriter (request [(''item'', ''shoes''), (''price'', ''45'')]) =
       (main_db\<lparr>items := (items main_db)(''shoes'' \<mapsto> 4500)\<rparr>,
        \<lparr>wroteHeader = True, status = 200, body = ''updated shoes: $45.00'' @ nl\<rparr>)"
proof -
  let ?boots = "request [(''item'', ''boots''), (''price'', ''45'')]"
  let ?shoes = "request [(''item'', ''shoes''), (''price'', ''45'')]"
  have p1: "ParseFloat sample_lib (Get (Query ?boots) ''price'') 32 = Some 4500"
    by (simp add: sample_simps)
  have p2: "ParseFloat sample_lib (Get (Query ?shoes) ''price'') 32 = Some 4500"
    by (simp add: sample_simps)
  have i1: "items main_db (Get (Query ?boots) ''item'') = None"
    by (simp add: sample_simps)
  have i2: "items main_db (Get (Query ?shoes) ''item'') = Some 5000"
    by (simp add: sample_simps)
  from update_absent_present [OF p1, of main_db] i1
  have "update sample_lib main_db NewResponseWriter ?boots =
          (main_db, \<lparr>wroteHeader = True, status = 404,
             body = ''no such item: '' @ Sprintf_q sample_lib (Get (Query ?boots) ''item'') @ nl\<rparr>)"
    by blast
  then have c1: "update sample_lib main_db NewResponseWriter ?boots =
       (main_db, \<lparr>wroteHeader = True, status = 404,
                  body = ''no such item: '' @ [CHR 0x22] @ ''boots'' @ [CHR 0x22] @ nl\<rparr>)"
    by (simp add: sample_simps)
  from update_absent_present [OF p2, of main_db] i2
  have "update sample_lib main_db NewResponseWriter ?shoes =
          (main_db\<lparr>items := (items main_db)(Get (Query ?shoes) ''item'' \<mapsto> dollars sample_lib 4500)\<rparr>,
           \<lparr>wroteHeader = True, status = 200,
            body = ''updated '' @ Get (Query ?shoes) ''item'' @ '': ''
                     @ String sample_lib (dollars sample_lib 4500) @ nl\<rparr>)"
    by blast
  then have c2: "update sample_lib main_db NewResponseWriter ?shoes =
       (main_db\<lparr>items := (items main_db)(''shoes'' \<mapsto> 4500)\<rparr>,
        \<lparr>wroteHeader = True, status = 200, body = ''updated shoes: $45.00'' @ nl\<rparr>)"
    by (simp add: sample_simps)
  show ?thesis by (intro conjI p1 i1 c1 p2 i2 c2)
qed

text \<open>
  Claim C5. \<^verbatim>\<open>delete\<close> of a name that is not in the store answers 404 and
  returns the store as it was; \<^verbatim>\<open>delete\<close> of a name that is in the store answers
  200 with the body \<^verbatim>\<open>deleted \<close> followed by the name and a newline, and removes
  the entry of that name and no other.
\<close>

theorem delete_absent_present:
  "(items db (Get (Query req) ''item'') = None \<longrightarrow>
      delete L db NewResponseWriter req =
        (db, \<lparr>wroteHeader = True, status = 404,
              body = ''no such item: '' @ Sprintf_q L (Get (Query req) ''item'') @ nl\<rparr>))
   \<and> (\<forall>v. items db (Get (Query req) ''item'') = Some v \<longrightarrow>
      delete L db NewResponseWriter req =
        (db\<lparr>items := (items db)(Get (Query req) ''item'' := None)\<rparr>,
         \<lparr>wroteHeader = True, status = 200, body = ''deleted '' @ Get (Query req) ''item'' @ nl\<rparr>))"
  by (simp add: delete_def Let_def Fprintf_new Fprintf_WriteHeader_new StatusNotFound_def)

theorem delete_absent_present_witness:
  "items main_db (Get (Query (request [(''item'', ''boots'')])) ''item'') = None
   \<and> delete sample_lib main_db NewResponseWriter (request [(''item'', ''boots'')]) =
       (main_db, \<lparr>wroteHeader = True, status = 404,
                  body = ''no such item: '' @ [CHR 0x22] @ ''boots'' @ [CHR 0x22] @ nl\<rparr>)
   \<and> items main_db (Get (Query (request [(''item'', ''socks'')])) ''item'') = Some 500
   \<and> delete sample_lib main_db NewResponseWriter (request [(''item'', ''socks'')]) =
       (main_db\<lparr>items := (items main_db)(''socks'' := None)\<rparr>,
        \<lparr>wroteHeader = True, status = 200, body = ''deleted socks'' @ nl\<rparr>)"
proof -
  let ?boots = "request [(''item'', ''boots'')]"
  let ?socks = "request [(''item'', ''socks'')]"
  have i1: "items main_db (Get (Query ?boots) ''item'') = None"
    by (simp add: sample_simps)
  have i2: "items main_db (Get (Query ?socks) ''item'') = Some 500"
    by (simp add: sample_simps)
  from delete_absent_present [of main_db ?boots sample_lib] i1
  have "delete sample_lib main_db NewResponseWriter ?boots =
          (main_db, \<lparr>wroteHeader = True, status = 404,
             body = ''no such item: '' @ Sprintf_q sample_lib (Get (Query ?boots) ''item'') @ nl\<rparr>)"
    by blast
  then have c1: "delete sample_lib main_db NewResponseWriter ?boots =
       (main_db, \<lparr>wroteHeader = True, status = 404,
                  body = ''no such item: '' @ [CHR 0x22] @ ''boots'' @ [CHR 0x22] @ nl\<rparr>)"
    by (simp add: sample_simps)
  from delete_absent_present [of main_db ?socks sample_lib] i2
  have "delete sample_lib main_db NewResponseWriter ?socks =
          (main_db\<lparr>items := (items main_db)(Get (Query ?socks) ''item'' := None)\<rparr>,
           \<lparr>wroteHeader = True, status = 200, body = ''deleted '' @ Get (Query ?socks) ''item'' @ nl\<rparr>)"
    by blast
  then have c2: "delete sample_lib main_db NewResponseWriter ?socks =
       (main_db\<lparr>items := (items main_db)(''socks'' := None)\<rparr>,
        \<lparr>wroteHeader = True, status = 200, body = ''deleted socks'' @ nl\<rparr>)"
    by (simp add: sample_simps)
  show ?thesis by (intro conjI i1 c1 i2 c2)
qed

subsection \<open>Frame\<close>

text \<open>
  Claim C8. Whatever the library, the store, the response writer and the request,
  and whether the handler succeeds or fails, \<^verbatim>\<open>create\<close>, \<^verbatim>\<open>update\<close> and
  \<^verbatim>\<open>delete\<close> leave the entry of every name other than the request's item name
  as it was.
\<close>

theorem other_entries_unchanged:
  assumes "m \<noteq> Get (Query req) ''item''"
  shows "items (fst (create L db w req)) m = items db m
       \<and> items (fst (update L db w req)) m = items db m
       \<and> items (fst (delete L db w req)) m = items db m"
  using assms
  by (simp add: create_def update_def delete_def Let_def split: option.split)

theorem other_entries_unchanged_witness:
  "''shoes'' \<noteq> Get (Query (request [(''item'', ''socks''), (''price'', ''45'')])) ''item''
   \<and> items (fst (create sample_lib main_db NewResponseWriter
                   (request [(''item'', ''socks''), (''price'', ''45'')]))) ''shoes'' = Some 5000
   \<and> items (fst (update sample_lib main_db NewResponseWriter
                   (request [(''item'', ''socks''), (''price'', ''45'')]))) ''shoes'' = Some 5000
   \<and> items (fst (delete sample_lib main_db NewResponseWriter
                   (request [(''item'', ''socks''), (''price'', ''45'')]))) ''shoes'' = Some 5000"
proof -
  let ?req = "request [(''item'', ''socks''), (''price'', ''45'')]"
  have h: "''shoes'' \<noteq> Get (Query ?req) ''item''"
    by (simp add: sample_simps)
  note th = other_entries_unchanged [OF h, of sample_lib main_db NewResponseWriter]
  from th have c: "items (fst (create sample_lib main_db NewResponseWriter ?req)) ''shoes'' = Some 5000"
    by (simp add: items_main_db)
  from th have u: "items (fst (update sample_lib main_db NewResponseWriter ?req)) ''shoes'' = Some 5000"
    by (simp add: items_main_db)
  from th have d: "items (fst (delete sample_lib main_db NewResponseWriter ?req)) ''shoes'' = Some 5000"
    by (simp add: items_main_db)
  show ?thesis by (intro conjI h c u d)
qed

subsection \<open>Requests without an item parameter\<close>

text \<open>
  Claim C9, as the code has it. A request with no \<^verbatim>\<open>item\<close> parameter names
  the empty string. While the store has no entry for the empty name, \<^verbatim>\<open>price\<close>
  and \<^verbatim>\<open>delete\<close> answer 404 for the empty name; and when the price string
  parses, \<^verbatim>\<open>update\<close> answers 404 for the empty name and \<^verbatim>\<open>create\<close> answers
  200 and inserts an entry under the empty name.
\<close>

theorem no_item_parameter:
  assumes "Query req ''item'' = None" and "items db [] = None"
  shows "Get (Query req) ''item'' = []
       \<and> price L db NewResponseWriter req =
           \<lparr>wroteHeader = True, status = 404, body = ''no such item: '' @ Sprintf_q L [] @ nl\<rparr>
       \<and> delete L db NewResponseWriter req =
           (db, \<lparr>wroteHeader = True, status = 404, body = ''no such item: '' @ Sprintf_q L [] @ nl\<rparr>)
       \<and> (\<forall>f. ParseFloat L (Get (Query req) ''price'') 32 = Some f \<longrightarrow>
            update L db NewResponseWriter req =
              (db, \<lparr>wroteHeader = True, status = 404, body = ''no such item: '' @ Sprintf_q L [] @ nl\<rparr>)
          \<and> create L db NewResponseWriter req =
              (db\<lparr>items := (items db)([] \<mapsto> dollars L f)\<rparr>,
               \<lparr>wroteHeader = True, status = 200,
                body = ''created '' @ [] @ '': '' @ String L (dollars L f) @ nl\<rparr>))"
proof -
  from assms(1) have g: "Get (Query req) ''item'' = []"
    by (simp add: Get_def)
  with assms(2) show ?thesis
    by (simp add: price_def create_def update_def delete_def Let_def Fprintf_new
        Fprintf_WriteHeader_new StatusNotFound_def)
qed

theorem no_item_parameter_witness:
  "Query (request [(''price'', ''40'')]) ''item'' = None
   \<and> items main_db [] = None
   \<and> ParseFloat sample_lib (Get (Query (request [(''price'', ''40'')])) ''price'') 32 = Some 4000
   \<and> price sample_lib main_db NewResponseWriter (request [(''price'', ''40'')]) =
       \<lparr>wroteHeader = True, status = 404, body = ''no such item: '' @ [CHR 0x22, CHR 0x22] @ nl\<rparr>
   \<and> delete sample_lib main_db NewResponseWriter (request [(''price'', ''40'')]) =
       (main_db, \<lparr>wroteHeader = True, status = 404, body = ''no such item: '' @ [CHR 0x22, CHR 0x22] @ nl\<rparr>)
   \<and> update sample_lib main_db NewResponseWriter (request [(''price'', ''40'')]) =
       (main_db, \<lparr>wroteHeader = True, status = 404, body = ''no such item: '' @ [CHR 0x22, CHR 0x22] @ nl\<rparr>)
   \<and> create sample_lib main_db NewResponseWriter (request [(''price'', ''40'')]) =
       (main_db\<lparr>items := (items main_db)([] \<mapsto> 4000)\<rparr>,
        \<lparr>wroteHeader = True, status = 200, body = ''created : $40.00'' @ nl\<rparr>)"
proof -
  let ?req = "request [(''price'', ''40'')]"
  have h1: "Query ?req ''item'' = None"
    by (simp add: sample_simps)
  have h2: "items main_db [] = None"
    by (simp add: sample_simps)
  have p: "ParseFloat sample_lib (Get (Query ?req) ''price'') 32 = Some 4000"
    by (simp add: sample_simps)
  note th = no_item_parameter [OF h1 h2, of sample_lib]
  from th have g: "price sample_lib main_db NewResponseWriter ?req =
       \<lparr>wroteHeader = True, status = 404, body = ''no such item: '' @ [CHR 0x22, CHR 0x22] @ nl\<rparr>"
    by (simp add: Sprintf_q_sample)
  from th have d: "delete sample_lib main_db NewResponseWriter ?req =
       (main_db, \<lparr>wroteHeader = True, status = 404, body = ''no such item: '' @ [CHR 0x22, CHR 0x22] @ nl\<rparr>)"
    by (simp add: Sprintf_q_sample)
  from th p have "update sample_lib main_db NewResponseWriter ?req =
          (main_db, \<lparr>wroteHeader = True, status = 404, body = ''no such item: '' @ Sprintf_q sample_lib [] @ nl\<rparr>)
        \<and> create sample_lib main_db NewResponseWriter ?req =
          (main_db\<lparr>items := (items main_db)([] \<mapsto> dollars sample_lib 4000)\<rparr>,
           \<lparr>wroteHeader = True, status = 200,
            body = ''created '' @ [] @ '': '' @ String sample_lib (dollars sample_lib 4000) @ nl\<rparr>)"
    by blast
  then have uc: "update sample_lib main_db NewResponseWriter ?req =
       (main_db, \<lparr>wroteHeader = True, status = 404, body = ''no such item: '' @ [CHR 0x22, CHR 0x22] @ nl\<rparr>)
     \<and> create sample_lib main_db NewResponseWriter ?req =
       (main_db\<lparr>items := (items main_db)([] \<mapsto> 4000)\<rparr>,
        \<lparr>wroteHeader = True, status = 200, body = ''created : $40.00'' @ nl\<rparr>)"
    by (simp add: sample_simps)
  show ?thesis by (intro conjI h1 h2 p g d conjunct1 [OF uc] conjunct2 [OF uc])
qed

text \<open>
  Claim C9 as written says that \<^verbatim>\<open>update\<close> without an \<^verbatim>\<open>item\<close> parameter fails
  with the 404 of a missing item whenever the store has no entry for the empty
  name. \<^verbatim>\<open>update\<close> parses the price before it looks the item up: with the price
  \<^verbatim>\<open>abc\<close> and no \<^verbatim>\<open>item\<close> parameter it answers 400, not 404.
\<close>

theorem update_no_item_counterexample:
  "Query (request [(''price'', ''abc'')]) ''item'' = None
   \<and> items main_db [] = None
   \<and> update sample_lib main_db NewResponseWriter (request [(''price'', ''abc'')]) =
       (main_db, \<lparr>wroteHeader = True, status = 400,
                  body = ''invalid price: '' @ [CHR 0x22] @ ''abc'' @ [CHR 0x22] @ nl\<rparr>)
   \<and> status (snd (update sample_lib main_db NewResponseWriter (request [(''price'', ''abc'')]))) \<noteq> 404"
  by (simp add: update_def Let_def request_def Get_def sample_lib_def main_db_def
      Fprintf_WriteHeader_new StatusBadRequest_def)

end
